theory Spec2Isabelle
  imports Complex_Main "HOL-Library.Sublist"
begin

section \<open>PBPD predictor: feature derivation and material routing\<close>

text \<open>
  The repository holds two Streamlit scripts: \<^verbatim>\<open>src/app.py\<close> (interactive form, PDF
  report and batch CSV prediction) and \<^verbatim>\<open>src/project/app.py\<close> (a smaller interactive
  form only). Both are modelled below, each function next to the lines it embeds.

  Numbers. The interactive widgets return finite Python floats, modelled as \<open>real\<close>:
  arithmetic is exact (no rounding, no overflow) and a decimal literal of the source
  denotes itself. Python's float division raises \<open>ZeroDivisionError\<close> on a zero divisor,
  which is kept. The batch flow computes on pandas columns, where division by zero raises
  nothing and yields \<open>inf\<close>, \<open>-inf\<close> or \<open>NaN\<close>; its cells are modelled by \<open>fval\<close>, a real
  or one of the three special values (the sign of zero is not distinguished).

  Strings are byte strings; the case conversions act on ASCII letters only and leave every
  other byte unchanged. Non-ASCII characters of the source's message texts are written as
  their UTF-8 bytes.

  The prediction models are external: a model is a function from a feature vector to a
  number, and the model files on disk are a partial map from file name to model.
\<close>

subsection \<open>Strings\<close>

text \<open>The ASCII letters; every other byte is its own lower and upper case.\<close>

definition lower_char :: "char \<Rightarrow> char" where
  "lower_char c =
     (case map_of (zip ''ABCDEFGHIJKLMNOPQRSTUVWXYZ'' ''abcdefghijklmnopqrstuvwxyz'') c of
        None \<Rightarrow> c
      | Some l \<Rightarrow> l)"

definition upper_char :: "char \<Rightarrow> char" where
  "upper_char c =
     (case map_of (zip ''abcdefghijklmnopqrstuvwxyz'' ''ABCDEFGHIJKLMNOPQRSTUVWXYZ'') c of
        None \<Rightarrow> c
      | Some u \<Rightarrow> u)"

text \<open>\<^verbatim>\<open>str.lower()\<close> and \<^verbatim>\<open>str.upper()\<close>.\<close>

definition lower :: "string \<Rightarrow> string" where
  "lower s = map lower_char s"

definition upper :: "string \<Rightarrow> string" where
  "upper s = map upper_char s"

text \<open>\<^verbatim>\<open>needle in hay\<close> on strings: some position of \<open>hay\<close> starts with \<open>needle\<close>.\<close>

fun starts_with :: "string \<Rightarrow> string \<Rightarrow> bool" where
  "starts_with [] hay = True"
| "starts_with (c # cs) [] = False"
| "starts_with (c # cs) (h # hs) = (c = h \<and> starts_with cs hs)"

fun str_in :: "string \<Rightarrow> string \<Rightarrow> bool" where
  "str_in needle [] = starts_with needle []"
| "str_in needle (h # hs) = (starts_with needle (h # hs) \<or> str_in needle hs)"

subsection \<open>Errors and the model files\<close>

datatype py_error = ZeroDivisionError | FileNotFoundError | ValueError

text \<open>Python's \<^verbatim>\<open>a / b\<close> on floats.\<close>

definition py_div :: "real \<Rightarrow> real \<Rightarrow> py_error + real" where
  "py_div a b = (if b = 0 then Inl ZeroDivisionError else Inr (a / b))"

text \<open>\<^verbatim>\<open>joblib.load(path)\<close>: the model stored under \<open>path\<close>, or \<open>FileNotFoundError\<close>.\<close>

definition joblib_load :: "(string \<rightharpoonup> 'm) \<Rightarrow> string \<Rightarrow> py_error + 'm" where
  "joblib_load files path =
     (case files path of None \<Rightarrow> Inl FileNotFoundError | Some model \<Rightarrow> Inr model)"

subsection \<open>Interactive flow of \<^verbatim>\<open>src/app.py\<close>\<close>

text \<open>The values of the widgets (lines 20-22 and 38-48).\<close>

record ui_inputs =
  material_choice :: string
  bulk_density :: real
  d10 :: real
  d50 :: real
  d90 :: real
  tap_density :: real
  hr :: real
  d23 :: real
  d34 :: real
  layer_thickness :: real

definition material_options :: "string list" where
  "material_options = [''Auto (via density)'', ''Ti'', ''SS'', ''Al'']"

text \<open>
  What the widgets guarantee: the select box returns one of its options, and a number
  input with \<^verbatim>\<open>min_value\<close> returns no smaller value (bulk density 0.0, Hausner ratio
  1.0, layer thickness 0.1). The other number inputs have no bound.
\<close>

definition widgets_ok :: "'a ui_inputs_scheme \<Rightarrow> bool" where
  "widgets_ok i \<longleftrightarrow>
     material_choice i \<in> set material_options \<and> 0 \<le> bulk_density i \<and>
     1 \<le> hr i \<and> 0.1 \<le> layer_thickness i"

text \<open>Lines 24-33.\<close>

definition material_group :: "string \<Rightarrow> real \<Rightarrow> string" where
  "material_group choice density =
     (if choice = ''Auto (via density)'' then
        (if density < 3.5 then ''al''
         else if 3.5 \<le> density \<and> density < 6 then ''ti''
         else ''ss'')
      else lower (lower choice))"

text \<open>Lines 50-52: the three divisions, in this order, outside any \<^verbatim>\<open>try\<close>.\<close>

record metrics =
  span :: real
  r23 :: real
  r34 :: real

definition derive :: "'a ui_inputs_scheme \<Rightarrow> py_error + metrics" where
  "derive i =
     (case py_div (d90 i - d10 i) (d50 i) of
        Inl e \<Rightarrow> Inl e
      | Inr s \<Rightarrow>
          (case py_div (d23 i) (layer_thickness i) of
             Inl e \<Rightarrow> Inl e
           | Inr a \<Rightarrow>
               (case py_div (d34 i) (layer_thickness i) of
                  Inl e \<Rightarrow> Inl e
                | Inr b \<Rightarrow> Inr \<lparr>span = s, r23 = a, r34 = b\<rparr>)))"

text \<open>The five messages of lines 57-66.\<close>

definition span_warning :: string where
  "span_warning =
     ''Span is outside typical range (0.8'' @ [CHR 0xE2, CHR 0x80, CHR 0x93] @ ''2.0).''"

definition r23_warning :: string where
  "r23_warning = ''R23 is outside expected range.''"

definition r34_warning :: string where
  "r34_warning = ''R34 is outside expected range.''"

definition bridging_warning :: string where
  "bridging_warning =
     ''D[2,3] is greater than layer thickness '' @ [CHR 0xE2, CHR 0x80, CHR 0x94] @
     '' may cause bridging.''"

definition hr_warning :: string where
  "hr_warning =
     ''HR is high '' @ [CHR 0xE2, CHR 0x80, CHR 0x94] @ '' flowability may be poor.''"

text \<open>Lines 55-66: five separate \<^verbatim>\<open>if\<close> statements, each appending to the list.\<close>

definition warnings :: "metrics \<Rightarrow> 'a ui_inputs_scheme \<Rightarrow> string list" where
  "warnings m i =
     (if span m < 0.8 \<or> span m > 2.0 then [span_warning] else []) @
     (if r23 m < 0.05 \<or> r23 m > 1.2 then [r23_warning] else []) @
     (if r34 m < 0.05 \<or> r34 m > 1.5 then [r34_warning] else []) @
     (if d23 i > layer_thickness i then [bridging_warning] else []) @
     (if hr i > 1.4 then [hr_warning] else [])"

text \<open>
  Lines 74-82 (and lines 69-77 of \<^verbatim>\<open>src/project/app.py\<close>, which are the same): the
  feature list of the group; \<open>None\<close> is the \<^verbatim>\<open>else\<close> branch that shows
  "Material model not found." and stops the script.
\<close>

definition features :: "string \<Rightarrow> metrics \<Rightarrow> 'a ui_inputs_scheme \<Rightarrow> real list option" where
  "features g m i =
     (if g = ''ti'' then Some [r23 m, span m, tap_density i]
      else if g = ''ss'' then Some [r23 m, r34 m, span m, tap_density i, hr i]
      else if g = ''al'' then Some [r34 m, span m, tap_density i]
      else None)"

text \<open>What the user sees after pressing the button.\<close>

datatype ui_result = Predicted real | ErrorShown string

definition model_not_found :: "string \<Rightarrow> string" where
  "model_not_found g =
     ''Model for '' @ [CHR 0x27] @ upper g @ [CHR 0x27] @
     '' not found. Make sure the model file exists.''"

text \<open>
  Lines 71-129: the body of the button. Only \<open>FileNotFoundError\<close> is caught; the report
  that follows the prediction is not modelled.
\<close>

definition on_predict ::
  "(string \<rightharpoonup> (real list \<Rightarrow> real)) \<Rightarrow> string \<Rightarrow> metrics \<Rightarrow> 'a ui_inputs_scheme \<Rightarrow>
     py_error + ui_result" where
  "on_predict files g m i =
     (case joblib_load files (''model_'' @ lower g @ ''.pkl'') of
        Inl e \<Rightarrow>
          (if e = FileNotFoundError then Inr (ErrorShown (model_not_found g)) else Inl e)
      | Inr model \<Rightarrow>
          (case features g m i of
             None \<Rightarrow> Inr (ErrorShown ''Material model not found.'')
           | Some fs \<Rightarrow> Inr (Predicted (model fs))))"

text \<open>
  One run of the script with the button pressed: the warnings shown and the result of the
  button, or the exception that ends the run.
\<close>

definition app ::
  "(string \<rightharpoonup> (real list \<Rightarrow> real)) \<Rightarrow> 'a ui_inputs_scheme \<Rightarrow>
     py_error + (string list \<times> ui_result)" where
  "app files i =
     (let g = material_group (material_choice i) (bulk_density i) in
      case derive i of
        Inl e \<Rightarrow> Inl e
      | Inr m \<Rightarrow>
          (case on_predict files g m i of
             Inl e \<Rightarrow> Inl e
           | Inr res \<Rightarrow> Inr (warnings m i, res)))"

subsection \<open>Interactive flow of \<^verbatim>\<open>src/project/app.py\<close>\<close>

text \<open>The same widgets and one more: Span is entered by the user (line 41).\<close>

record project_inputs = ui_inputs +
  span_input :: real

text \<open>Lines 23-31.\<close>

definition project_material_group :: "string \<Rightarrow> real \<Rightarrow> string" where
  "project_material_group choice density =
     (if choice = ''Auto (via density)'' then
        (if density < 3.5 then ''al''
         else if 3.5 \<le> density \<and> density < 6 then ''ti''
         else ''ss'')
      else lower choice)"

text \<open>Lines 41 and 50-51.\<close>

definition project_derive :: "'a project_inputs_scheme \<Rightarrow> py_error + metrics" where
  "project_derive i =
     (case py_div (d23 i) (layer_thickness i) of
        Inl e \<Rightarrow> Inl e
      | Inr a \<Rightarrow>
          (case py_div (d34 i) (layer_thickness i) of
             Inl e \<Rightarrow> Inl e
           | Inr b \<Rightarrow> Inr \<lparr>span = span_input i, r23 = a, r34 = b\<rparr>))"

text \<open>Lines 54-61: three checks.\<close>

definition project_warnings :: "metrics \<Rightarrow> string list" where
  "project_warnings m =
     (if span m < 0.8 \<or> span m > 2.0 then [span_warning] else []) @
     (if r23 m < 0.05 \<or> r23 m > 1.2 then [r23_warning] else []) @
     (if r34 m < 0.05 \<or> r34 m > 1.5 then [r34_warning] else [])"

text \<open>Lines 66-85.\<close>

definition project_on_predict ::
  "(string \<rightharpoonup> (real list \<Rightarrow> real)) \<Rightarrow> string \<Rightarrow> metrics \<Rightarrow> 'a ui_inputs_scheme \<Rightarrow>
     py_error + ui_result" where
  "project_on_predict files g m i =
     (case joblib_load files (''model_'' @ g @ ''.pkl'') of
        Inl e \<Rightarrow>
          (if e = FileNotFoundError then Inr (ErrorShown (model_not_found g)) else Inl e)
      | Inr model \<Rightarrow>
          (case features g m i of
             None \<Rightarrow> Inr (ErrorShown ''Material model not found.'')
           | Some fs \<Rightarrow> Inr (Predicted (model fs))))"

definition project_app ::
  "(string \<rightharpoonup> (real list \<Rightarrow> real)) \<Rightarrow> 'a project_inputs_scheme \<Rightarrow>
     py_error + (string list \<times> ui_result)" where
  "project_app files i =
     (let g = project_material_group (material_choice i) (bulk_density i) in
      case project_derive i of
        Inl e \<Rightarrow> Inl e
      | Inr m \<Rightarrow>
          (case project_on_predict files g m i of
             Inl e \<Rightarrow> Inl e
           | Inr res \<Rightarrow> Inr (project_warnings m, res)))"

subsection \<open>Batch flow of \<^verbatim>\<open>src/app.py\<close>\<close>

text \<open>A float64 cell: a finite number, plus or minus infinity, or NaN.\<close>

datatype fval = Fin real | PInf | NInf | NaN

fun np_sub :: "fval \<Rightarrow> fval \<Rightarrow> fval" where
  "np_sub NaN y = NaN"
| "np_sub x NaN = NaN"
| "np_sub (Fin a) (Fin b) = Fin (a - b)"
| "np_sub (Fin a) PInf = NInf"
| "np_sub (Fin a) NInf = PInf"
| "np_sub PInf PInf = NaN"
| "np_sub PInf y = PInf"
| "np_sub NInf NInf = NaN"
| "np_sub NInf y = NInf"

fun np_div :: "fval \<Rightarrow> fval \<Rightarrow> fval" where
  "np_div NaN y = NaN"
| "np_div x NaN = NaN"
| "np_div (Fin a) (Fin b) =
     (if b = 0 then (if 0 < a then PInf else if a < 0 then NInf else NaN)
      else Fin (a / b))"
| "np_div (Fin a) y = Fin 0"
| "np_div PInf (Fin b) = (if b < 0 then NInf else PInf)"
| "np_div NInf (Fin b) = (if b < 0 then PInf else NInf)"
| "np_div x y = NaN"

text \<open>
  A row of the uploaded CSV with the nine required columns (lines 138-142; the check of
  line 144 has passed). \<open>Material\<close> holds \<^verbatim>\<open>str(row['Material'])\<close>. Any further column
  of the file is the extension part of the record.
\<close>

record csv_row =
  D10_um :: fval
  D50_um :: fval
  D90_um :: fval
  D23 :: fval
  D34 :: fval
  Tap_Density :: fval
  HR :: fval
  Effective_Layer_Thickness_um :: fval
  Material :: string

text \<open>Lines 148-150: the three derived columns, computed row by row.\<close>

definition Span :: "'a csv_row_scheme \<Rightarrow> fval" where
  "Span row = np_div (np_sub (D90_um row) (D10_um row)) (D50_um row)"

definition R23 :: "'a csv_row_scheme \<Rightarrow> fval" where
  "R23 row = np_div (D23 row) (Effective_Layer_Thickness_um row)"

definition R34 :: "'a csv_row_scheme \<Rightarrow> fval" where
  "R34 row = np_div (D34 row) (Effective_Layer_Thickness_um row)"

text \<open>Lines 154-165: \<^verbatim>\<open>model_used\<close> and \<^verbatim>\<open>features\<close> of a row.\<close>

definition batch_route :: "'a csv_row_scheme \<Rightarrow> (string \<times> fval list) option" where
  "batch_route row =
     (let mat = lower (Material row) in
      if str_in ''ti'' mat then
        Some (''ti'', [R23 row, Span row, Tap_Density row])
      else if str_in ''ss'' mat \<or> str_in ''316'' mat then
        Some (''ss'', [R23 row, R34 row, Span row, Tap_Density row, HR row])
      else if str_in ''al'' mat then
        Some (''al'', [R34 row, Span row, Tap_Density row])
      else None)"

text \<open>
  Lines 167-175, one pass of the loop body on the list \<^verbatim>\<open>predictions\<close>. A routed row
  appends inside the \<^verbatim>\<open>if\<close> (line 170) and again after it (line 175); an unrouted row
  appends NaN and continues. \<^verbatim>\<open>joblib.load\<close> is not inside a \<^verbatim>\<open>try\<close>.
\<close>

definition batch_step ::
  "(string \<rightharpoonup> (fval list \<Rightarrow> fval)) \<Rightarrow> fval list \<Rightarrow> 'a csv_row_scheme \<Rightarrow>
     py_error + fval list" where
  "batch_step files predictions row =
     (case batch_route row of
        Some (model_used, fs) \<Rightarrow>
          (case joblib_load files (''model_'' @ model_used @ ''.pkl'') of
             Inl e \<Rightarrow> Inl e
           | Inr model \<Rightarrow>
               (let pred = model fs;
                    predictions1 = predictions @ [pred];
                    pred2 = model fs
                in Inr (predictions1 @ [pred2])))
      | None \<Rightarrow> Inr (predictions @ [NaN]))"

text \<open>Lines 153-175: the loop over the rows.\<close>

fun batch_loop ::
  "(string \<rightharpoonup> (fval list \<Rightarrow> fval)) \<Rightarrow> fval list \<Rightarrow> 'a csv_row_scheme list \<Rightarrow>
     py_error + fval list" where
  "batch_loop files predictions [] = Inr predictions"
| "batch_loop files predictions (row # rows) =
     (case batch_step files predictions row of
        Inl e \<Rightarrow> Inl e
      | Inr predictions' \<Rightarrow> batch_loop files predictions' rows)"

text \<open>
  Lines 152-177: the column \<^verbatim>\<open>Predicted_PBPD_%\<close>. Assigning a list to a column of a
  frame raises \<open>ValueError\<close> unless the list has one value for each row.
\<close>

definition batch_predict ::
  "(string \<rightharpoonup> (fval list \<Rightarrow> fval)) \<Rightarrow> 'a csv_row_scheme list \<Rightarrow> py_error + fval list" where
  "batch_predict files rows =
     (case batch_loop files [] rows of
        Inl e \<Rightarrow> Inl e
      | Inr predictions \<Rightarrow>
          (if length predictions = length rows then Inr predictions else Inl ValueError))"

subsection \<open>Sample inputs\<close>

text \<open>The default values of the widgets (the \<^verbatim>\<open>value\<close> arguments of both scripts).\<close>

definition default_inputs :: ui_inputs where
  "default_inputs =
     \<lparr>material_choice = ''Auto (via density)'', bulk_density = 4.5,
      d10 = 15, d50 = 35, d90 = 55, tap_density = 5, hr = 1.2,
      d23 = 30, d34 = 42, layer_thickness = 60\<rparr>"

definition project_default_inputs :: project_inputs where
  "project_default_inputs =
     \<lparr>material_choice = ''Auto (via density)'', bulk_density = 4.5,
      d10 = 15, d50 = 35, d90 = 55, tap_density = 5, hr = 1.2,
      d23 = 30, d34 = 42, layer_thickness = 60, span_input = 1.2\<rparr>"

text \<open>A CSV row with the default measurements and a given Material text.\<close>

definition sample_row :: "string \<Rightarrow> csv_row" where
  "sample_row mat =
     \<lparr>D10_um = Fin 15, D50_um = Fin 35, D90_um = Fin 55, D23 = Fin 30, D34 = Fin 42,
      Tap_Density = Fin 5, HR = Fin 1.2, Effective_Layer_Thickness_um = Fin 60,
      Material = mat\<rparr>"

text \<open>A CSV file that also has a bulk density column.\<close>

record csv_row_with_density = csv_row +
  Bulk_Density :: fval

definition density_row :: "string \<Rightarrow> fval \<Rightarrow> csv_row_with_density" where
  "density_row mat density =
     \<lparr>D10_um = Fin 15, D50_um = Fin 35, D90_um = Fin 55, D23 = Fin 30, D34 = Fin 42,
      Tap_Density = Fin 5, HR = Fin 1.2, Effective_Layer_Thickness_um = Fin 60,
      Material = mat, Bulk_Density = density\<rparr>"

section \<open>Properties\<close>

subsection \<open>Auxiliary facts\<close>

lemma starts_with_prefix: "starts_with n h \<longleftrightarrow> prefix n h"
  by (induction n h rule: starts_with.induct) simp_all

lemma str_in_sublist: "str_in n h \<longleftrightarrow> sublist n h"
  by (induction h) (simp_all add: starts_with_prefix sublist_Cons_right)

lemma lower_options:
  "lower ''Ti'' = ''ti''" "lower ''SS'' = ''ss''" "lower ''Al'' = ''al''"
  "lower ''ti'' = ''ti''" "lower ''ss'' = ''ss''" "lower ''al'' = ''al''"
  by (simp_all add: lower_def lower_char_def)

lemma material_group_resolved:
  "choice \<in> set material_options \<Longrightarrow> material_group choice density \<in> {''ti'', ''ss'', ''al''}"
  by (auto simp add: material_options_def material_group_def lower_options)

lemma batch_route_cases:
  "batch_route row \<in>
     {None,
      Some (''ti'', [R23 row, Span row, Tap_Density row]),
      Some (''ss'', [R23 row, R34 row, Span row, Tap_Density row, HR row]),
      Some (''al'', [R34 row, Span row, Tap_Density row])}"
  by (simp add: batch_route_def Let_def)

lemma derive_defined:
  "d50 i \<noteq> 0 \<Longrightarrow> layer_thickness i \<noteq> 0 \<Longrightarrow>
   derive i = Inr \<lparr>span = (d90 i - d10 i) / d50 i, r23 = d23 i / layer_thickness i,
                   r34 = d34 i / layer_thickness i\<rparr>"
  by (simp add: derive_def py_div_def)

lemma derive_zero:
  "d50 i = 0 \<or> layer_thickness i = 0 \<Longrightarrow> derive i = Inl ZeroDivisionError"
  by (auto simp add: derive_def py_div_def)

lemma project_derive_defined:
  "layer_thickness i \<noteq> 0 \<Longrightarrow>
   project_derive i = Inr \<lparr>span = span_input i, r23 = d23 i / layer_thickness i,
                           r34 = d34 i / layer_thickness i\<rparr>"
  by (simp add: project_derive_def py_div_def)

lemma np_div_zero: "np_div x (Fin 0) \<in> {PInf, NInf, NaN}"
  by (cases x) simp_all

lemma batch_step_error:
  "batch_step files preds row = Inl e \<Longrightarrow> e = FileNotFoundError"
  by (auto simp add: batch_step_def joblib_load_def Let_def split: option.splits prod.splits)

lemma batch_loop_error:
  "batch_loop files preds rows = Inl e \<Longrightarrow> e = FileNotFoundError"
proof (induction rows arbitrary: preds)
  case Nil
  then show ?case by simp
next
  case (Cons row rows)
  then show ?case
    by (auto split: sum.splits dest: batch_step_error)
qed

lemma batch_step_unrouted:
  "batch_route row = None \<Longrightarrow> batch_step files preds row = Inr (preds @ [NaN])"
  by (simp add: batch_step_def)

lemma batch_step_routed_length:
  "batch_route row \<noteq> None \<Longrightarrow> batch_step files preds row = Inr out \<Longrightarrow>
   length out = length preds + 2"
  by (auto simp add: batch_step_def Let_def split: option.splits prod.splits sum.splits)

lemma batch_loop_unrouted:
  "\<forall>r \<in> set rows. batch_route r = None \<Longrightarrow>
   batch_loop files preds rows = Inr (preds @ replicate (length rows) NaN)"
proof (induction rows arbitrary: preds)
  case Nil
  then show ?case by simp
next
  case (Cons row rows)
  then show ?case
    by (simp add: batch_step_unrouted replicate_app_Cons_same)
qed

lemma batch_loop_length:
  "batch_loop files preds rows = Inr out \<Longrightarrow>
   length out = length preds + length rows + length (filter (\<lambda>r. batch_route r \<noteq> None) rows)"
proof (induction rows arbitrary: preds)
  case Nil
  then show ?case by simp
next
  case (Cons row rows)
  from Cons.prems obtain mid where
    step: "batch_step files preds row = Inr mid" and rest: "batch_loop files mid rows = Inr out"
    by (auto split: sum.splits)
  have len: "length out = length mid + length rows
      + length (filter (\<lambda>r. batch_route r \<noteq> None) rows)"
    using rest by (rule Cons.IH)
  show ?case
  proof (cases "batch_route row")
    case None
    then have "mid = preds @ [NaN]"
      using step by (simp add: batch_step_unrouted)
    then show ?thesis using len None by simp
  next
    case (Some a)
    then have "length mid = length preds + 2"
      using step batch_step_routed_length [of row files preds mid] by simp
    then show ?thesis using len Some by simp
  qed
qed

lemma batch_predict_returns:
  assumes "batch_predict files rows = Inr col"
  shows "(\<forall>r \<in> set rows. batch_route r = None) \<and> col = replicate (length rows) NaN"
proof -
  from assms obtain out where
    loop: "batch_loop files [] rows = Inr out" and len: "length out = length rows"
    and col: "col = out"
    by (auto simp add: batch_predict_def split: sum.splits if_splits)
  have "length (filter (\<lambda>r. batch_route r \<noteq> None) rows) = 0"
    using batch_loop_length [OF loop] len by simp
  then have un: "\<forall>r \<in> set rows. batch_route r = None"
    unfolding length_0_conv filter_empty_conv by blast
  then have "out = replicate (length rows) NaN"
    using loop by (simp add: batch_loop_unrouted)
  then show ?thesis using un col by simp
qed

lemma batch_predict_unrouted:
  "\<forall>r \<in> set rows. batch_route r = None \<Longrightarrow>
   batch_predict files rows = Inr (replicate (length rows) NaN)"
  by (simp add: batch_predict_def batch_loop_unrouted)

lemma batch_route_name:
  "map_option fst (batch_route row) =
     (if sublist ''ti'' (lower (Material row)) then Some ''ti''
      else if sublist ''ss'' (lower (Material row)) \<or> sublist ''316'' (lower (Material row))
        then Some ''ss''
      else if sublist ''al'' (lower (Material row)) then Some ''al''
      else None)"
  by (simp add: batch_route_def Let_def str_in_sublist)

lemma batch_route_none:
  "batch_route row = None \<longleftrightarrow>
     \<not> sublist ''ti'' (lower (Material row)) \<and> \<not> sublist ''ss'' (lower (Material row)) \<and>
     \<not> sublist ''316'' (lower (Material row)) \<and> \<not> sublist ''al'' (lower (Material row))"
  by (simp add: batch_route_def Let_def str_in_sublist)

lemma warning_texts_distinct:
  "distinct [span_warning, r23_warning, r34_warning, bridging_warning, hr_warning]"
  by (simp add: span_warning_def r23_warning_def r34_warning_def bridging_warning_def
      hr_warning_def)

subsection \<open>Claims\<close>

text \<open>
  Claim C1. For every resolved material group the feature vector is the one of the table:
  Titanium (\<open>ti\<close>) gives [R23, Span, TapDensity], StainlessSteel (\<open>ss\<close>) gives
  [R23, R34, Span, TapDensity, HR], Aluminum (\<open>al\<close>) gives [R34, Span, TapDensity].
  Every choice of the select box resolves to one of the three groups, the model loaded for
  the group is applied to exactly that vector, and a routed batch row carries the same
  layout. With R23 = 0.5, R34 = 0.7, Span = 1.14, TapDensity = 5.0 and HR = 1.2 the
  StainlessSteel vector is [0.5, 0.7, 1.14, 5.0, 1.2].
\<close>

theorem build_features_order:
  assumes "choice \<in> set material_options"
    and "files (''model_'' @ material_group choice density @ ''.pkl'') = Some model"
  shows "material_group choice density \<in> {''ti'', ''ss'', ''al''} \<and>
    features ''ti'' m i = Some [r23 m, span m, tap_density i] \<and>
    features ''ss'' m i = Some [r23 m, r34 m, span m, tap_density i, hr i] \<and>
    features ''al'' m i = Some [r34 m, span m, tap_density i] \<and>
    (\<exists>fs. features (material_group choice density) m i = Some fs \<and>
       on_predict files (material_group choice density) m i = Inr (Predicted (model fs))) \<and>
    features ''ss'' \<lparr>span = 1.14, r23 = 0.5, r34 = 0.7\<rparr> (i\<lparr>tap_density := 5.0, hr := 1.2\<rparr>)
      = Some [0.5, 0.7, 1.14, 5.0, 1.2] \<and>
    batch_route row \<in>
     {None,
      Some (''ti'', [R23 row, Span row, Tap_Density row]),
      Some (''ss'', [R23 row, R34 row, Span row, Tap_Density row, HR row]),
      Some (''al'', [R34 row, Span row, Tap_Density row])}"
proof -
  let ?g = "material_group choice density"
  have g: "?g \<in> {''ti'', ''ss'', ''al''}"
    using assms(1) by (rule material_group_resolved)
  have tbl: "features ''ti'' m i = Some [r23 m, span m, tap_density i]"
    "features ''ss'' m i = Some [r23 m, r34 m, span m, tap_density i, hr i]"
    "features ''al'' m i = Some [r34 m, span m, tap_density i]"
    by (simp_all add: features_def)
  have low: "lower ?g = ?g"
    using g by (auto simp add: lower_options)
  have ex: "\<exists>fs. features ?g m i = Some fs \<and>
       on_predict files ?g m i = Inr (Predicted (model fs))"
    using g assms(2) by (auto simp add: on_predict_def joblib_load_def low features_def)
  have ss: "features ''ss'' \<lparr>span = 1.14, r23 = 0.5, r34 = 0.7\<rparr> (i\<lparr>tap_density := 5.0, hr := 1.2\<rparr>)
      = Some [0.5, 0.7, 1.14, 5.0, 1.2]"
    by (simp add: features_def)
  show ?thesis
    using g tbl ex ss batch_route_cases [of row] by blast
qed

text \<open>
  Claim C1 at the StainlessSteel choice, a model that sums its vector, and the batch row
  with Material "SS316L".
\<close>

theorem build_features_order_witness:
  "''SS'' \<in> set material_options \<and> material_group ''SS'' 4.5 = ''ss'' \<and>
   on_predict [''model_ss.pkl'' \<mapsto> sum_list] ''ss'' \<lparr>span = 1.14, r23 = 0.5, r34 = 0.7\<rparr>
     default_inputs = Inr (Predicted 8.54) \<and>
   batch_route (sample_row ''SS316L'')
     = Some (''ss'', [Fin 0.5, Fin 0.7, Fin (8 / 7), Fin 5, Fin 1.2])"
  using build_features_order [where choice = "''SS''" and density = "4.5"
      and files = "[''model_ss.pkl'' \<mapsto> sum_list]" and model = sum_list
      and m = "\<lparr>span = 1.14, r23 = 0.5, r34 = 0.7\<rparr>" and i = default_inputs
      and row = "sample_row ''SS316L''"]
  by (simp add: material_options_def material_group_def lower_def lower_char_def features_def
      on_predict_def joblib_load_def batch_route_def
      default_inputs_def sample_row_def Span_def R23_def R34_def)

text \<open>
  Claim C2. With the automatic choice of the select box and a bulk density of at least 0,
  the group is Aluminum (\<open>al\<close>) below 3.5, Titanium (\<open>ti\<close>) from 3.5 up to but excluding 6,
  and StainlessSteel (\<open>ss\<close>) from 6 on, in both scripts: one group for every density, the
  three groups being different, with 3.5 resolved to Titanium and 6.0 to StainlessSteel.
\<close>

theorem auto_resolution_partition:
  assumes "0 \<le> density"
  shows "material_group ''Auto (via density)'' density =
      (if density < 3.5 then ''al'' else if density < 6 then ''ti'' else ''ss'') \<and>
    project_material_group ''Auto (via density)'' density =
      (if density < 3.5 then ''al'' else if density < 6 then ''ti'' else ''ss'') \<and>
    distinct [''al'', ''ti'', ''ss''] \<and>
    material_group ''Auto (via density)'' 3.5 = ''ti'' \<and>
    material_group ''Auto (via density)'' 6.0 = ''ss'' \<and>
    project_material_group ''Auto (via density)'' 3.5 = ''ti'' \<and>
    project_material_group ''Auto (via density)'' 6.0 = ''ss''"
  by (simp add: material_group_def project_material_group_def)

text \<open>
  Claim C2 at the default bulk density 4.5.
\<close>

theorem auto_resolution_partition_witness:
  "(0::real) \<le> 4.5 \<and> material_group ''Auto (via density)'' 4.5 = ''ti'' \<and>
   project_material_group ''Auto (via density)'' 4.5 = ''ti''"
  using auto_resolution_partition [where density = "4.5"] by simp

text \<open>
  Claim C3 does not hold in \<^verbatim>\<open>src/project/app.py\<close>: there Span is a number entered by
  the user. With the default values (D10 = 15, D50 = 35, D90 = 55, Span input 1.2) the
  metrics carry Span = 1.2, not 40/35, and a model that returns the second feature of the
  Titanium vector returns 1.2.
\<close>

theorem project_span_is_input_counterexample:
  "project_derive project_default_inputs = Inr \<lparr>span = 1.2, r23 = 0.5, r34 = 0.7\<rparr> \<and>
   (d90 project_default_inputs - d10 project_default_inputs) / d50 project_default_inputs
     = 40 / 35 \<and>
   (1.2 :: real) \<noteq> 40 / 35 \<and>
   project_app [''model_ti.pkl'' \<mapsto> (\<lambda>fs. fs ! 1)] project_default_inputs
     = Inr ([], Predicted 1.2)"
  by (simp add: project_derive_def py_div_def project_default_inputs_def project_app_def
      project_material_group_def project_on_predict_def joblib_load_def features_def
      project_warnings_def)

text \<open>
  Claim C3, amended. In \<^verbatim>\<open>src/app.py\<close> the metrics are computed from the sample on every
  run: with non-zero D50 and layer thickness, Span = (D90 - D10) / D50,
  R23 = D[2,3] / LayerThickness and R34 = D[3,4] / LayerThickness, and these values are the
  ones the warnings and the feature vector use; the batch columns are the same formulas on
  finite cells with non-zero divisors. In \<^verbatim>\<open>src/project/app.py\<close> R23 and R34 are computed
  the same way, and Span is the value of its own input field. D10 = 15, D50 = 35, D90 = 55
  gives Span = 40/35.
\<close>

theorem derived_metrics_formulas:
  assumes "d50 i \<noteq> 0" and "layer_thickness i \<noteq> 0"
    and "layer_thickness j \<noteq> 0"
    and "D90_um row = Fin a" and "D10_um row = Fin b" and "D50_um row = Fin c" and "c \<noteq> 0"
    and "D23 row = Fin p" and "D34 row = Fin q"
    and "Effective_Layer_Thickness_um row = Fin t" and "t \<noteq> 0"
  shows "derive i = Inr \<lparr>span = (d90 i - d10 i) / d50 i, r23 = d23 i / layer_thickness i,
                         r34 = d34 i / layer_thickness i\<rparr> \<and>
    app files i =
      (case on_predict files (material_group (material_choice i) (bulk_density i))
              \<lparr>span = (d90 i - d10 i) / d50 i, r23 = d23 i / layer_thickness i,
               r34 = d34 i / layer_thickness i\<rparr> i of
         Inl e \<Rightarrow> Inl e
       | Inr res \<Rightarrow>
           Inr (warnings \<lparr>span = (d90 i - d10 i) / d50 i, r23 = d23 i / layer_thickness i,
                         r34 = d34 i / layer_thickness i\<rparr> i, res)) \<and>
    Span row = Fin ((a - b) / c) \<and> R23 row = Fin (p / t) \<and> R34 row = Fin (q / t) \<and>
    project_derive j = Inr \<lparr>span = span_input j, r23 = d23 j / layer_thickness j,
                            r34 = d34 j / layer_thickness j\<rparr> \<and>
    derive default_inputs = Inr \<lparr>span = 40 / 35, r23 = 0.5, r34 = 0.7\<rparr>"
proof -
  have d: "derive i = Inr \<lparr>span = (d90 i - d10 i) / d50 i, r23 = d23 i / layer_thickness i,
                         r34 = d34 i / layer_thickness i\<rparr>"
    using assms(1,2) by (rule derive_defined)
  have a: "app files i =
      (case on_predict files (material_group (material_choice i) (bulk_density i))
              \<lparr>span = (d90 i - d10 i) / d50 i, r23 = d23 i / layer_thickness i,
               r34 = d34 i / layer_thickness i\<rparr> i of
         Inl e \<Rightarrow> Inl e
       | Inr res \<Rightarrow>
           Inr (warnings \<lparr>span = (d90 i - d10 i) / d50 i, r23 = d23 i / layer_thickness i,
                         r34 = d34 i / layer_thickness i\<rparr> i, res))"
    by (simp add: app_def d)
  have b: "Span row = Fin ((a - b) / c)" "R23 row = Fin (p / t)" "R34 row = Fin (q / t)"
    using assms(4-11) by (simp_all add: Span_def R23_def R34_def)
  have p: "project_derive j = Inr \<lparr>span = span_input j, r23 = d23 j / layer_thickness j,
                            r34 = d34 j / layer_thickness j\<rparr>"
    using assms(3) by (rule project_derive_defined)
  have e: "derive default_inputs = Inr \<lparr>span = 40 / 35, r23 = 0.5, r34 = 0.7\<rparr>"
    by (simp add: derive_def py_div_def default_inputs_def)
  show ?thesis using d a b p e by simp
qed

text \<open>
  Claim C3, amended, at the default inputs of both scripts and a batch row of the same
  measurements.
\<close>

theorem derived_metrics_formulas_witness:
  "d50 default_inputs \<noteq> 0 \<and> layer_thickness default_inputs \<noteq> 0 \<and>
   layer_thickness project_default_inputs \<noteq> 0 \<and>
   derive default_inputs = Inr \<lparr>span = 8 / 7, r23 = 1 / 2, r34 = 7 / 10\<rparr> \<and>
   Span (sample_row ''Ti'') = Fin (8 / 7) \<and> R23 (sample_row ''Ti'') = Fin (1 / 2) \<and>
   R34 (sample_row ''Ti'') = Fin (7 / 10) \<and>
   project_derive project_default_inputs = Inr \<lparr>span = 6 / 5, r23 = 1 / 2, r34 = 7 / 10\<rparr>"
  using derived_metrics_formulas [where i = default_inputs and j = project_default_inputs
      and row = "sample_row ''Ti''" and a = 55 and b = 15 and c = 35 and p = 30 and q = 42
      and t = 60 and files = Map.empty]
  by (simp add: default_inputs_def project_default_inputs_def sample_row_def)

text \<open>
  Claim C4 does not hold in the batch flow: a row with D50 = 0 raises nothing, its Span is
  infinite, the Titanium feature vector carries it and the model is applied to it; a row
  with layer thickness 0 routed to Aluminum carries an infinite R34.
\<close>

theorem batch_zero_divisor_counterexample:
  "Span ((sample_row ''Ti'')\<lparr>D50_um := Fin 0\<rparr>) = PInf \<and>
   batch_route ((sample_row ''Ti'')\<lparr>D50_um := Fin 0\<rparr>) = Some (''ti'', [Fin 0.5, PInf, Fin 5]) \<and>
   batch_step [''model_ti.pkl'' \<mapsto> (\<lambda>fs. fs ! 1)] [] ((sample_row ''Ti'')\<lparr>D50_um := Fin 0\<rparr>)
     = Inr [PInf, PInf] \<and>
   batch_route ((sample_row ''Al'')\<lparr>Effective_Layer_Thickness_um := Fin 0\<rparr>)
     = Some (''al'', [PInf, Fin (8 / 7), Fin 5])"
  by (simp add: sample_row_def Span_def R23_def R34_def batch_route_def batch_step_def
      joblib_load_def lower_def lower_char_def)

text \<open>
  Claim C4, amended. In the interactive flow of \<^verbatim>\<open>src/app.py\<close> a zero D50 (or a zero
  layer thickness, which the widget's lower bound 0.1 excludes) makes the metric
  computation raise \<open>ZeroDivisionError\<close>, which ends the run before any warning or feature
  vector exists. In the batch flow nothing is raised: a row with D50 = 0 has a Span that is
  infinite or NaN, a row with layer thickness 0 has R23 and R34 that are infinite or NaN,
  a routed row carries these values in its feature vector, and neither a pass of the loop
  nor the loop ends with a division error.
\<close>

theorem zero_divisor_behaviour:
  assumes "d50 i = 0 \<or> layer_thickness i = 0"
    and "D50_um row = Fin 0"
    and "Effective_Layer_Thickness_um row' = Fin 0"
  shows "derive i = Inl ZeroDivisionError \<and> app files i = Inl ZeroDivisionError \<and>
    Span row \<in> {PInf, NInf, NaN} \<and>
    R23 row' \<in> {PInf, NInf, NaN} \<and> R34 row' \<in> {PInf, NInf, NaN} \<and>
    (\<forall>g fs. batch_route row = Some (g, fs) \<longrightarrow> Span row \<in> set fs) \<and>
    (\<forall>g fs. batch_route row' = Some (g, fs) \<longrightarrow> R23 row' \<in> set fs \<or> R34 row' \<in> set fs) \<and>
    batch_step bfiles preds row \<noteq> Inl ZeroDivisionError \<and>
    batch_loop bfiles preds rows \<noteq> Inl ZeroDivisionError"
proof -
  have d: "derive i = Inl ZeroDivisionError"
    using assms(1) by (rule derive_zero)
  have a: "app files i = Inl ZeroDivisionError"
    by (simp add: app_def d)
  have s: "Span row \<in> {PInf, NInf, NaN}"
    using np_div_zero [of "np_sub (D90_um row) (D10_um row)"] assms(2) by (simp add: Span_def)
  have r: "R23 row' \<in> {PInf, NInf, NaN}" "R34 row' \<in> {PInf, NInf, NaN}"
    using np_div_zero [of "D23 row'"] np_div_zero [of "D34 row'"] assms(3)
    by (simp_all add: R23_def R34_def)
  have f1: "\<forall>g fs. batch_route row = Some (g, fs) \<longrightarrow> Span row \<in> set fs"
    using batch_route_cases [of row] by auto
  have f2: "\<forall>g fs. batch_route row' = Some (g, fs) \<longrightarrow> R23 row' \<in> set fs \<or> R34 row' \<in> set fs"
    using batch_route_cases [of row'] by auto
  have e1: "batch_step bfiles preds row \<noteq> Inl ZeroDivisionError"
    using batch_step_error [of bfiles preds row ZeroDivisionError] by auto
  have e2: "batch_loop bfiles preds rows \<noteq> Inl ZeroDivisionError"
    using batch_loop_error [of bfiles preds rows ZeroDivisionError] by auto
  show ?thesis using d a s r f1 f2 e1 e2 by blast
qed

text \<open>
  Claim C4, amended, at the default inputs with D50 = 0, a Titanium row with D50 = 0 and an
  Aluminum row with layer thickness 0.
\<close>

theorem zero_divisor_behaviour_witness:
  "d50 (default_inputs\<lparr>d50 := 0\<rparr>) = 0 \<and>
   derive (default_inputs\<lparr>d50 := 0\<rparr>) = Inl ZeroDivisionError \<and>
   app Map.empty (default_inputs\<lparr>d50 := 0\<rparr>) = Inl ZeroDivisionError \<and>
   D50_um ((sample_row ''Ti'')\<lparr>D50_um := Fin 0\<rparr>) = Fin 0 \<and>
   batch_route ((sample_row ''Ti'')\<lparr>D50_um := Fin 0\<rparr>) = Some (''ti'', [Fin 0.5, PInf, Fin 5]) \<and>
   PInf \<in> set [Fin 0.5, PInf, Fin 5] \<and>
   Effective_Layer_Thickness_um ((sample_row ''Al'')\<lparr>Effective_Layer_Thickness_um := Fin 0\<rparr>)
     = Fin 0 \<and>
   batch_route ((sample_row ''Al'')\<lparr>Effective_Layer_Thickness_um := Fin 0\<rparr>)
     = Some (''al'', [PInf, Fin (8 / 7), Fin 5]) \<and>
   batch_step Map.empty [] ((sample_row ''Ti'')\<lparr>D50_um := Fin 0\<rparr>) \<noteq> Inl ZeroDivisionError"
  using zero_divisor_behaviour [where i = "default_inputs\<lparr>d50 := 0\<rparr>"
      and row = "(sample_row ''Ti'')\<lparr>D50_um := Fin 0\<rparr>"
      and row' = "(sample_row ''Al'')\<lparr>Effective_Layer_Thickness_um := Fin 0\<rparr>"
      and files = Map.empty and bfiles = Map.empty and preds = "[]" and rows = "[]"]
  by (simp add: default_inputs_def sample_row_def Span_def R23_def R34_def batch_route_def
      lower_def lower_char_def)

text \<open>
  Claim C5 does not hold for its own example: the lower-cased text "unknown_alloy" contains
  "al", so the row is routed to the Aluminum model and gets that model's prediction, not
  NaN. The routed row's prediction is appended twice, and the column assignment of the
  one-row file ends with \<open>ValueError\<close>.
\<close>

theorem unknown_alloy_is_routed_counterexample:
  "lower ''unknown_alloy'' = ''unknown_alloy'' \<and> str_in ''al'' ''unknown_alloy'' \<and>
   batch_route (sample_row ''unknown_alloy'') = Some (''al'', [Fin 0.7, Fin (8 / 7), Fin 5]) \<and>
   batch_step [''model_al.pkl'' \<mapsto> (\<lambda>fs. Fin 60)] [] (sample_row ''unknown_alloy'')
     = Inr [Fin 60, Fin 60] \<and>
   batch_predict [''model_al.pkl'' \<mapsto> (\<lambda>fs. Fin 60)] [sample_row ''unknown_alloy'']
     = Inl ValueError"
  by (simp add: sample_row_def Span_def R23_def R34_def batch_route_def batch_step_def
      batch_predict_def joblib_load_def lower_def lower_char_def)

text \<open>
  Claim C5, amended. A row whose lower-cased Material contains none of "ti", "ss", "316"
  and "al" is not routed: the pass of the loop appends NaN for it without raising, and the
  loop goes on with the next row. When no row of the file is routed, the column
  \<^verbatim>\<open>Predicted_PBPD_%\<close> holds NaN for every row, one value per input row.
\<close>

theorem unrouted_row_gets_nan:
  assumes "\<not> sublist ''ti'' (lower (Material row))"
    and "\<not> sublist ''ss'' (lower (Material row))"
    and "\<not> sublist ''316'' (lower (Material row))"
    and "\<not> sublist ''al'' (lower (Material row))"
    and "\<forall>r \<in> set rows. batch_route r = None"
  shows "batch_route row = None \<and>
    batch_step files preds row = Inr (preds @ [NaN]) \<and>
    batch_loop files preds (row # rest) = batch_loop files (preds @ [NaN]) rest \<and>
    batch_predict files rows = Inr (replicate (length rows) NaN)"
proof -
  have n: "batch_route row = None"
    using assms(1-4) by (simp add: batch_route_none)
  have s: "batch_step files preds row = Inr (preds @ [NaN])"
    using n by (rule batch_step_unrouted)
  have l: "batch_loop files preds (row # rest) = batch_loop files (preds @ [NaN]) rest"
    by (simp add: s)
  have p: "batch_predict files rows = Inr (replicate (length rows) NaN)"
    using assms(5) by (rule batch_predict_unrouted)
  show ?thesis using n s l p by simp
qed

text \<open>
  Claim C5, amended, at the Material texts "unknown" and "nan".
\<close>

theorem unrouted_row_gets_nan_witness:
  "\<not> sublist ''ti'' (lower ''unknown'') \<and> \<not> sublist ''ss'' (lower ''unknown'') \<and>
   \<not> sublist ''316'' (lower ''unknown'') \<and> \<not> sublist ''al'' (lower ''unknown'') \<and>
   batch_step Map.empty [Fin 60] (sample_row ''unknown'') = Inr [Fin 60, NaN] \<and>
   batch_predict Map.empty [sample_row ''unknown'', sample_row ''nan'']
     = Inr [NaN, NaN]"
proof -
  have low: "lower ''unknown'' = ''unknown''" "lower ''nan'' = ''nan''"
    by (simp_all add: lower_def lower_char_def)
  have un: "\<forall>r \<in> set [sample_row ''unknown'', sample_row ''nan'']. batch_route r = None"
    by (simp add: batch_route_def sample_row_def low)
  have m: "Material (sample_row ''unknown'') = ''unknown''"
    by (simp add: sample_row_def)
  have sub: "\<not> sublist ''ti'' ''unknown''" "\<not> sublist ''ss'' ''unknown''"
    "\<not> sublist ''316'' ''unknown''" "\<not> sublist ''al'' ''unknown''"
    by (simp_all add: str_in_sublist [symmetric])
  show ?thesis
    using unrouted_row_gets_nan [where row = "sample_row ''unknown''"
        and rows = "[sample_row ''unknown'', sample_row ''nan'']" and files = Map.empty
        and preds = "[Fin 60]" and rest = "[]"] un sub
    by (simp add: m low numeral_2_eq_2)
qed

text \<open>
  Claim C6. The batch classification lower-cases the Material text and tests substring
  containment in a fixed order, the first match winning: "ti" gives Titanium, else "ss" or
  "316" gives StainlessSteel, else "al" gives Aluminum, else the row is unmatched and the
  pass of the loop appends NaN. "SS316L" is StainlessSteel; "Ti-6Al-4V" is Titanium although
  its lower case contains "al".
\<close>

theorem batch_classification_priority:
  "map_option fst (batch_route row) =
     (if sublist ''ti'' (lower (Material row)) then Some ''ti''
      else if sublist ''ss'' (lower (Material row)) \<or> sublist ''316'' (lower (Material row))
        then Some ''ss''
      else if sublist ''al'' (lower (Material row)) then Some ''al''
      else None) \<and>
   (batch_route row = None \<longleftrightarrow> batch_step files preds row = Inr (preds @ [NaN])) \<and>
   lower ''SS316L'' = ''ss316l'' \<and> lower ''Ti-6Al-4V'' = ''ti-6al-4v'' \<and>
   map_option fst (batch_route (row\<lparr>Material := ''SS316L''\<rparr>)) = Some ''ss'' \<and>
   map_option fst (batch_route (row\<lparr>Material := ''Ti-6Al-4V''\<rparr>)) = Some ''ti'' \<and>
   sublist ''al'' (lower ''Ti-6Al-4V'')"
proof -
  have low: "lower ''SS316L'' = ''ss316l''" "lower ''Ti-6Al-4V'' = ''ti-6al-4v''"
    by (simp_all add: lower_def lower_char_def)
  have ex: "map_option fst (batch_route (row\<lparr>Material := ''SS316L''\<rparr>)) = Some ''ss''"
    "map_option fst (batch_route (row\<lparr>Material := ''Ti-6Al-4V''\<rparr>)) = Some ''ti''"
    by (simp_all add: batch_route_def low)
  have al: "sublist ''al'' (lower ''Ti-6Al-4V'')"
    unfolding low str_in_sublist [symmetric] by simp
  have st: "batch_route row = None \<longleftrightarrow> batch_step files preds row = Inr (preds @ [NaN])"
    by (auto simp add: batch_step_def Let_def split: option.splits sum.splits)
  show ?thesis using batch_route_name [of row] low ex al st by simp
qed

text \<open>
  Claim C6 at four Material texts, one for each outcome.
\<close>

theorem batch_classification_priority_witness:
  "map_option fst (batch_route (sample_row ''SS316L'')) = Some ''ss'' \<and>
   map_option fst (batch_route (sample_row ''Ti-6Al-4V'')) = Some ''ti'' \<and>
   map_option fst (batch_route (sample_row ''AlSi10Mg'')) = Some ''al'' \<and>
   map_option fst (batch_route (sample_row ''Inconel 718'')) = None"
  using batch_classification_priority [where row = "sample_row ''SS316L''"]
    batch_classification_priority [where row = "sample_row ''Ti-6Al-4V''"]
  by (simp add: batch_route_def sample_row_def lower_def lower_char_def)

text \<open>
  Claim C7 does not hold in \<^verbatim>\<open>src/project/app.py\<close>, which has the first three checks
  only: a sample with Span = 2.5 and HR = 1.5 and the other metrics in range produces one
  warning there, the one for Span.
\<close>

theorem project_warnings_counterexample:
  "project_derive (project_default_inputs\<lparr>span_input := 2.5, hr := 1.5\<rparr>)
     = Inr \<lparr>span = 2.5, r23 = 0.5, r34 = 0.7\<rparr> \<and>
   hr (project_default_inputs\<lparr>span_input := 2.5, hr := 1.5\<rparr>) = 1.5 \<and>
   project_warnings \<lparr>span = 2.5, r23 = 0.5, r34 = 0.7\<rparr> = [span_warning] \<and>
   project_app [''model_ti.pkl'' \<mapsto> (\<lambda>fs. 60)]
       (project_default_inputs\<lparr>span_input := 2.5, hr := 1.5\<rparr>)
     = Inr ([span_warning], Predicted 60)"
  by (simp add: project_derive_def py_div_def project_default_inputs_def project_app_def
      project_material_group_def project_on_predict_def joblib_load_def features_def
      project_warnings_def)

text \<open>
  Claim C7, amended. In \<^verbatim>\<open>src/app.py\<close> each of the five conditions (Span below 0.8 or
  above 2.0; R23 below 0.05 or above 1.2; R34 below 0.05 or above 1.5; D[2,3] above the
  layer thickness; HR above 1.4) decides the presence of its own warning and of no other;
  a sample with Span = 2.5, HR = 1.5 and the other metrics in range has exactly the Span
  and the flowability warnings, in this order; and the prediction is made whatever the
  warnings are. In \<^verbatim>\<open>src/project/app.py\<close> only the Span, R23 and R34 conditions exist,
  each deciding its own warning, so that the same sample has the Span warning only.
\<close>

theorem warnings_independent_checks:
  assumes "span m = 2.5" and "hr i = 1.5"
    and "0.05 \<le> r23 m" and "r23 m \<le> 1.2" and "0.05 \<le> r34 m" and "r34 m \<le> 1.5"
    and "d23 i \<le> layer_thickness i"
    and "derive i' = Inr m'"
    and "material_choice i' \<in> set material_options"
    and "files (''model_'' @ material_group (material_choice i') (bulk_density i') @ ''.pkl'')
           = Some model"
  shows "(span_warning \<in> set (warnings n j) \<longleftrightarrow> span n < 0.8 \<or> span n > 2.0) \<and>
    (r23_warning \<in> set (warnings n j) \<longleftrightarrow> r23 n < 0.05 \<or> r23 n > 1.2) \<and>
    (r34_warning \<in> set (warnings n j) \<longleftrightarrow> r34 n < 0.05 \<or> r34 n > 1.5) \<and>
    (bridging_warning \<in> set (warnings n j) \<longleftrightarrow> d23 j > layer_thickness j) \<and>
    (hr_warning \<in> set (warnings n j) \<longleftrightarrow> hr j > 1.4) \<and>
    set (warnings n j)
      \<subseteq> {span_warning, r23_warning, r34_warning, bridging_warning, hr_warning} \<and>
    distinct (warnings n j) \<and>
    warnings m i = [span_warning, hr_warning] \<and>
    (\<exists>fs. features (material_group (material_choice i') (bulk_density i')) m' i' = Some fs \<and>
       app files i' = Inr (warnings m' i', Predicted (model fs))) \<and>
    (span_warning \<in> set (project_warnings n) \<longleftrightarrow> span n < 0.8 \<or> span n > 2.0) \<and>
    (r23_warning \<in> set (project_warnings n) \<longleftrightarrow> r23 n < 0.05 \<or> r23 n > 1.2) \<and>
    (r34_warning \<in> set (project_warnings n) \<longleftrightarrow> r34 n < 0.05 \<or> r34 n > 1.5) \<and>
    set (project_warnings n) \<subseteq> {span_warning, r23_warning, r34_warning} \<and>
    project_warnings m = [span_warning]"
proof -
  note d = warning_texts_distinct
  have w1: "span_warning \<in> set (warnings n j) \<longleftrightarrow> span n < 0.8 \<or> span n > 2.0"
    using d by (auto simp add: warnings_def)
  have w2: "r23_warning \<in> set (warnings n j) \<longleftrightarrow> r23 n < 0.05 \<or> r23 n > 1.2"
    using d by (auto simp add: warnings_def)
  have w3: "r34_warning \<in> set (warnings n j) \<longleftrightarrow> r34 n < 0.05 \<or> r34 n > 1.5"
    using d by (auto simp add: warnings_def)
  have w4: "bridging_warning \<in> set (warnings n j) \<longleftrightarrow> d23 j > layer_thickness j"
    using d by (auto simp add: warnings_def)
  have w5: "hr_warning \<in> set (warnings n j) \<longleftrightarrow> hr j > 1.4"
    using d by (auto simp add: warnings_def)
  have ws: "set (warnings n j)
      \<subseteq> {span_warning, r23_warning, r34_warning, bridging_warning, hr_warning}"
    by (auto simp add: warnings_def)
  have wd: "distinct (warnings n j)"
    using d by (auto simp add: warnings_def)
  have ex: "warnings m i = [span_warning, hr_warning]"
    using assms(1-7) by (simp add: warnings_def)
  let ?g = "material_group (material_choice i') (bulk_density i')"
  have g: "?g \<in> {''ti'', ''ss'', ''al''}"
    using assms(9) by (rule material_group_resolved)
  then have low: "lower ?g = ?g"
    by (auto simp add: lower_options)
  have go: "\<exists>fs. features ?g m' i' = Some fs \<and>
       app files i' = Inr (warnings m' i', Predicted (model fs))"
    using g assms(8,10)
    by (auto simp add: app_def on_predict_def joblib_load_def low features_def)
  have p1: "span_warning \<in> set (project_warnings n) \<longleftrightarrow> span n < 0.8 \<or> span n > 2.0"
    using d by (auto simp add: project_warnings_def)
  have p2: "r23_warning \<in> set (project_warnings n) \<longleftrightarrow> r23 n < 0.05 \<or> r23 n > 1.2"
    using d by (auto simp add: project_warnings_def)
  have p3: "r34_warning \<in> set (project_warnings n) \<longleftrightarrow> r34 n < 0.05 \<or> r34 n > 1.5"
    using d by (auto simp add: project_warnings_def)
  have ps: "set (project_warnings n) \<subseteq> {span_warning, r23_warning, r34_warning}"
    by (auto simp add: project_warnings_def)
  have pe: "project_warnings m = [span_warning]"
    using assms(1-7) by (simp add: project_warnings_def)
  show ?thesis
    using w1 w2 w3 w4 w5 ws wd ex go p1 p2 p3 ps pe by blast
qed

text \<open>
  Claim C7, amended, at the default inputs with D10 = 10, D50 = 20, D90 = 60 (Span 2.5)
  and HR = 1.5, the Titanium model returning 60.
\<close>

theorem warnings_independent_checks_witness:
  "derive (default_inputs\<lparr>d10 := 10, d50 := 20, d90 := 60, hr := 1.5\<rparr>)
     = Inr \<lparr>span = 2.5, r23 = 0.5, r34 = 0.7\<rparr> \<and>
   warnings \<lparr>span = 2.5, r23 = 0.5, r34 = 0.7\<rparr>
       (default_inputs\<lparr>d10 := 10, d50 := 20, d90 := 60, hr := 1.5\<rparr>)
     = [span_warning, hr_warning] \<and>
   app [''model_ti.pkl'' \<mapsto> (\<lambda>fs. 60)]
       (default_inputs\<lparr>d10 := 10, d50 := 20, d90 := 60, hr := 1.5\<rparr>)
     = Inr ([span_warning, hr_warning], Predicted 60) \<and>
   project_warnings \<lparr>span = 2.5, r23 = 0.5, r34 = 0.7\<rparr> = [span_warning]"
proof -
  let ?i = "default_inputs\<lparr>d10 := 10, d50 := 20, d90 := 60, hr := 1.5\<rparr>"
  let ?m = "\<lparr>span = 2.5, r23 = 0.5, r34 = 0.7\<rparr>"
  let ?files = "[''model_ti.pkl'' \<mapsto> (\<lambda>fs :: real list. 60 :: real)]"
  have d: "derive ?i = Inr ?m"
    by (simp add: derive_def py_div_def default_inputs_def)
  have c: "material_choice ?i \<in> set material_options"
    by (simp add: default_inputs_def material_options_def)
  have f: "?files (''model_'' @ material_group (material_choice ?i) (bulk_density ?i) @ ''.pkl'')
      = Some (\<lambda>fs. 60)"
    by (simp add: default_inputs_def material_group_def)
  have h: "span ?m = 2.5" "hr ?i = 1.5" "0.05 \<le> r23 ?m" "r23 ?m \<le> 1.2"
    "0.05 \<le> r34 ?m" "r34 ?m \<le> 1.5" "d23 ?i \<le> layer_thickness ?i"
    by (simp_all add: default_inputs_def)
  note th = warnings_independent_checks [where n = ?m and j = ?i and m = ?m and i = ?i
      and i' = ?i and m' = ?m and files = ?files and model = "\<lambda>fs. 60", OF h d c f]
  from th have w: "warnings ?m ?i = [span_warning, hr_warning]"
    by blast
  from th have p: "project_warnings ?m = [span_warning]"
    by blast
  from th have a: "app ?files ?i = Inr (warnings ?m ?i, Predicted 60)"
    by blast
  show ?thesis using d w p a by simp
qed

text \<open>
  Claim C8 on the code. In the interactive flow a missing model file is reported by the
  message "Model for 'TI' not found. Make sure the model file exists." and nothing else
  happens. In the batch flow the same missing file ends the loop with
  \<open>FileNotFoundError\<close> at the Titanium row: the Aluminum row after it, whose model
  exists, is never reached.
\<close>

theorem batch_missing_model_aborts:
  "on_predict Map.empty ''ti'' \<lparr>span = 8 / 7, r23 = 0.5, r34 = 0.7\<rparr> default_inputs
     = Inr (ErrorShown (''Model for '' @ [CHR 0x27] @ ''TI'' @ [CHR 0x27] @
         '' not found. Make sure the model file exists.'')) \<and>
   app Map.empty default_inputs
     = Inr ([], ErrorShown (''Model for '' @ [CHR 0x27] @ ''TI'' @ [CHR 0x27] @
         '' not found. Make sure the model file exists.'')) \<and>
   batch_step [''model_al.pkl'' \<mapsto> (\<lambda>fs. Fin 60)] [] (sample_row ''Ti'')
     = Inl FileNotFoundError \<and>
   batch_loop [''model_al.pkl'' \<mapsto> (\<lambda>fs. Fin 60)] [] [sample_row ''Ti'', sample_row ''Al'']
     = Inl FileNotFoundError \<and>
   batch_predict [''model_al.pkl'' \<mapsto> (\<lambda>fs. Fin 60)] [sample_row ''Ti'', sample_row ''Al'']
     = Inl FileNotFoundError"
  by (simp add: on_predict_def app_def derive_def py_div_def warnings_def material_group_def
      model_not_found_def upper_def upper_char_def
      default_inputs_def joblib_load_def batch_step_def batch_predict_def batch_route_def
      sample_row_def lower_def lower_char_def)

text \<open>
  Claim C9. The widgets keep the layer thickness at 0.1 or more and the Hausner ratio at
  1.0 or more, so the two divisions by the layer thickness never fail, in both scripts.
  D50 has no bound: setting it to 0 is accepted by the widgets, and the Span division of
  \<^verbatim>\<open>src/app.py\<close> then raises \<open>ZeroDivisionError\<close>; this is the only way the metric
  computation fails.
\<close>

theorem layer_thickness_lower_bound:
  assumes "widgets_ok i" and "widgets_ok j"
  shows "0.1 \<le> layer_thickness i \<and> 1 \<le> hr i \<and> layer_thickness i \<noteq> 0 \<and>
    py_div (d23 i) (layer_thickness i) = Inr (d23 i / layer_thickness i) \<and>
    py_div (d34 i) (layer_thickness i) = Inr (d34 i / layer_thickness i) \<and>
    project_derive j = Inr \<lparr>span = span_input j, r23 = d23 j / layer_thickness j,
                            r34 = d34 j / layer_thickness j\<rparr> \<and>
    (derive i = Inl ZeroDivisionError \<longleftrightarrow> d50 i = 0) \<and>
    widgets_ok (i\<lparr>d50 := 0\<rparr>) \<and> derive (i\<lparr>d50 := 0\<rparr>) = Inl ZeroDivisionError"
proof -
  have lt: "0.1 \<le> layer_thickness i" "1 \<le> hr i" "0.1 \<le> layer_thickness j"
    using assms by (simp_all add: widgets_ok_def)
  then have nz: "layer_thickness i \<noteq> 0" "layer_thickness j \<noteq> 0"
    by auto
  have dv: "py_div (d23 i) (layer_thickness i) = Inr (d23 i / layer_thickness i)"
    "py_div (d34 i) (layer_thickness i) = Inr (d34 i / layer_thickness i)"
    using nz by (simp_all add: py_div_def)
  have pj: "project_derive j = Inr \<lparr>span = span_input j, r23 = d23 j / layer_thickness j,
                            r34 = d34 j / layer_thickness j\<rparr>"
    using nz(2) by (rule project_derive_defined)
  have dz: "derive i = Inl ZeroDivisionError \<longleftrightarrow> d50 i = 0"
    using nz(1) by (simp add: derive_def py_div_def)
  have wz: "widgets_ok (i\<lparr>d50 := 0\<rparr>)"
    using assms(1) by (simp add: widgets_ok_def)
  have ez: "derive (i\<lparr>d50 := 0\<rparr>) = Inl ZeroDivisionError"
    by (simp add: derive_zero)
  show ?thesis using lt nz dv pj dz wz ez by simp
qed

text \<open>
  Claim C9 at the default inputs of both scripts.
\<close>

theorem layer_thickness_lower_bound_witness:
  "widgets_ok default_inputs \<and> widgets_ok project_default_inputs \<and>
   py_div (d23 default_inputs) (layer_thickness default_inputs) = Inr 0.5 \<and>
   py_div (d34 default_inputs) (layer_thickness default_inputs) = Inr 0.7 \<and>
   widgets_ok (default_inputs\<lparr>d50 := 0\<rparr>) \<and>
   derive (default_inputs\<lparr>d50 := 0\<rparr>) = Inl ZeroDivisionError"
proof -
  have w: "widgets_ok default_inputs" "widgets_ok project_default_inputs"
    by (simp_all add: widgets_ok_def default_inputs_def project_default_inputs_def
        material_options_def)
  show ?thesis
    using layer_thickness_lower_bound [OF w] w by (simp add: default_inputs_def)
qed

text \<open>
  Claim C10. The batch routing reads the Material text only: two rows with the same
  Material, whatever their other columns, are routed alike. A row whose lower-cased
  Material contains none of "ti", "ss", "316" and "al" is unmatched and the loop appends
  NaN for it; "Auto" and "Auto (via density)" are such texts, whereas the interactive flow
  resolves the automatic choice by density (2 gives Aluminum, 7 gives StainlessSteel).
  Whenever the batch returns its column, the column has one value per row and an
  unmatched row has NaN at its position.
\<close>

theorem batch_routing_ignores_density:
  assumes "Material r1 = Material r2"
    and "\<not> sublist ''ti'' (lower (Material row))"
    and "\<not> sublist ''ss'' (lower (Material row))"
    and "\<not> sublist ''316'' (lower (Material row))"
    and "\<not> sublist ''al'' (lower (Material row))"
    and "batch_predict files rows = Inr col"
    and "k < length rows"
  shows "map_option fst (batch_route r1) = map_option fst (batch_route r2) \<and>
    batch_route row = None \<and>
    batch_step files preds row = Inr (preds @ [NaN]) \<and>
    length col = length rows \<and> batch_route (rows ! k) = None \<and> col ! k = NaN \<and>
    batch_route (row\<lparr>Material := ''Auto''\<rparr>) = None \<and>
    batch_route (row\<lparr>Material := ''Auto (via density)''\<rparr>) = None \<and>
    material_group ''Auto (via density)'' 2 = ''al'' \<and>
    material_group ''Auto (via density)'' 7 = ''ss''"
proof -
  have a: "map_option fst (batch_route r1) = map_option fst (batch_route r2)"
    using assms(1) by (simp add: batch_route_name)
  have n: "batch_route row = None"
    using assms(2-5) by (simp add: batch_route_none)
  have s: "batch_step files preds row = Inr (preds @ [NaN])"
    using n by (rule batch_step_unrouted)
  have c: "col = replicate (length rows) NaN"
    using batch_predict_returns [OF assms(6)] by simp
  then have l: "length col = length rows" "col ! k = NaN"
    using assms(7) by simp_all
  have u: "batch_route (rows ! k) = None"
    using batch_predict_returns [OF assms(6)] assms(7) by simp
  have low: "lower ''Auto'' = ''auto''" "lower ''Auto (via density)'' = ''auto (via density)''"
    by (simp_all add: lower_def lower_char_def)
  have au: "batch_route (row\<lparr>Material := ''Auto''\<rparr>) = None"
    "batch_route (row\<lparr>Material := ''Auto (via density)''\<rparr>) = None"
    by (simp_all add: batch_route_def low)
  have mg: "material_group ''Auto (via density)'' 2 = ''al''"
    "material_group ''Auto (via density)'' 7 = ''ss''"
    by (simp_all add: material_group_def)
  show ?thesis using a n s l u au mg by simp
qed

text \<open>
  Claim C10 at two rows of a file with a bulk density column, both with Material "Auto",
  with densities 2 and 7.
\<close>

theorem batch_routing_ignores_density_witness:
  "Material (density_row ''Auto'' (Fin 2)) = Material (density_row ''Auto'' (Fin 7)) \<and>
   batch_route (density_row ''Auto'' (Fin 2)) = None \<and>
   batch_route (density_row ''Auto'' (Fin 7)) = None \<and>
   batch_step Map.empty [] (density_row ''Auto'' (Fin 7)) = Inr [NaN] \<and>
   batch_predict Map.empty [density_row ''Auto'' (Fin 2), density_row ''Auto'' (Fin 7)]
     = Inr [NaN, NaN]"
proof -
  let ?a = "density_row ''Auto'' (Fin 2)" and ?b = "density_row ''Auto'' (Fin 7)"
  have m: "Material ?a = ''Auto''" "Material ?b = ''Auto''"
    by (simp_all add: density_row_def)
  have low: "lower ''Auto'' = ''auto''"
    by (simp add: lower_def lower_char_def)
  have sub: "\<not> sublist ''ti'' ''auto''" "\<not> sublist ''ss'' ''auto''"
    "\<not> sublist ''316'' ''auto''" "\<not> sublist ''al'' ''auto''"
    by (simp_all add: str_in_sublist [symmetric])
  have r: "batch_route ?a = None" "batch_route ?b = None"
    by (simp_all add: batch_route_none m low sub)
  have p: "batch_predict Map.empty [?a, ?b] = Inr [NaN, NaN]"
    by (simp add: batch_predict_def batch_step_def r)
  show ?thesis
    using batch_routing_ignores_density [where ?r1.0 = ?a and ?r2.0 = ?b and row = ?b
        and files = Map.empty and rows = "[?a, ?b]" and col = "[NaN, NaN]" and k = 1
        and preds = "[]"] p r
    by (simp add: m low sub)
qed

end
